theory Spec2Isabelle
  imports Main "HOL-Library.Word"
begin

unbundle bit_operations_syntax

section \<open>Data model of the password service\<close>

text \<open>
  The engine of \<^verbatim>\<open>main.go\<close> is the struct \<^verbatim>\<open>PasswordManager\<close>. Its counters are
  Go machine integers: \<^verbatim>\<open>id\<close> and \<^verbatim>\<open>requests\<close> are \<^verbatim>\<open>int64\<close>, \<^verbatim>\<open>totalTime\<close> is a
  \<^verbatim>\<open>time.Duration\<close> (an \<^verbatim>\<open>int64\<close> count of nanoseconds) and \<^verbatim>\<open>pendingHashes\<close> is an
  \<^verbatim>\<open>int\<close>, which is 64 bits wide on the 64-bit targets. All four are 64-bit words
  here: \<open>+\<close> and \<open>-\<close> wrap as in Go, and \<open>sint\<close> reads the signed value.

  A Go \<^verbatim>\<open>[]byte\<close> is either \<^verbatim>\<open>nil\<close> or a slice of bytes; it is a
  \<open>byte list option\<close> with \<open>None\<close> for \<^verbatim>\<open>nil\<close>. The map \<^verbatim>\<open>tasks\<close> is a partial
  function from ids to such values, so that a key can be absent, and a present key
  can in principle hold \<^verbatim>\<open>nil\<close>.
\<close>

type_synonym byte = "8 word"
type_synonym int64 = "64 word"
type_synonym uint64 = "64 word"
type_synonym bytes = "byte list option"

text \<open>A reading of the clock (\<^verbatim>\<open>time.Now()\<close>), in nanoseconds.\<close>

type_synonym time = int

record PasswordManager =
  tasks :: "int64 \<rightharpoonup> bytes"
  id' :: int64
  requests :: int64
  totalTime :: int64
  pendingHashes :: int64
  shuttingDown :: bool

text \<open>
  \<^verbatim>\<open>t.Sub(u)\<close> of package \<^verbatim>\<open>time\<close>: the difference as a \<^verbatim>\<open>Duration\<close>, replaced by
  the largest or the smallest \<^verbatim>\<open>Duration\<close> when it does not fit.
\<close>

definition Sub :: "time \<Rightarrow> time \<Rightarrow> int64" where
  "Sub t u =
     (let d = t - u
      in if d > 2 ^ 63 - 1 then word_of_int (2 ^ 63 - 1)
         else if d < - (2 ^ 63) then word_of_int (- (2 ^ 63))
         else word_of_int d)"

text \<open>
  Go's \<^verbatim>\<open>/\<close> on \<^verbatim>\<open>int64\<close> truncates towards zero. The divisor is never zero
  where \<^verbatim>\<open>Stats\<close> divides: it is the constant 1000000 or a positive \<^verbatim>\<open>requests\<close>.
\<close>

definition quo :: "int64 \<Rightarrow> int64 \<Rightarrow> int64" where
  "quo a b = word_of_int (sgn (sint a) * sgn (sint b) * (\<bar>sint a\<bar> div \<bar>sint b\<bar>))"

definition NewPasswordManager :: PasswordManager where
  "NewPasswordManager =
     \<lparr>tasks = Map.empty, id' = 0, requests = 0, totalTime = 0, pendingHashes = 0,
      shuttingDown = False\<rparr>"

section \<open>The digest: SHA-512\<close>

text \<open>
  \<^verbatim>\<open>calculateHash\<close> calls \<^verbatim>\<open>sha512.New()\<close>, \<^verbatim>\<open>Write\<close> and \<^verbatim>\<open>Sum(nil)\<close> of Go's
  \<^verbatim>\<open>crypto/sha512\<close>, which is not part of the repository. The function it computes is
  SHA-512 of FIPS 180-4, written out here on 64-bit words: the padding, the message
  schedule, the eighty rounds of the compression function and the big-endian output.
\<close>

definition rotr :: "nat \<Rightarrow> uint64 \<Rightarrow> uint64" where
  "rotr n x = drop_bit n x OR push_bit (64 - n) x"

definition Ch :: "uint64 \<Rightarrow> uint64 \<Rightarrow> uint64 \<Rightarrow> uint64" where
  "Ch x y z = (x AND y) XOR (NOT x AND z)"

definition Maj :: "uint64 \<Rightarrow> uint64 \<Rightarrow> uint64 \<Rightarrow> uint64" where
  "Maj x y z = (x AND y) XOR (x AND z) XOR (y AND z)"

definition bsig0 :: "uint64 \<Rightarrow> uint64" where
  "bsig0 x = rotr 28 x XOR rotr 34 x XOR rotr 39 x"

definition bsig1 :: "uint64 \<Rightarrow> uint64" where
  "bsig1 x = rotr 14 x XOR rotr 18 x XOR rotr 41 x"

definition ssig0 :: "uint64 \<Rightarrow> uint64" where
  "ssig0 x = rotr 1 x XOR rotr 8 x XOR drop_bit 7 x"

definition ssig1 :: "uint64 \<Rightarrow> uint64" where
  "ssig1 x = rotr 19 x XOR rotr 61 x XOR drop_bit 6 x"

text \<open>
  The round constants are the first 64 bits of the fractional parts of the cube roots
  of the first eighty primes, the initial hash value those of the square roots of the
  first eight primes.
\<close>

definition K512 :: "uint64 list" where
  "K512 =
    [0x428A2F98D728AE22, 0x7137449123EF65CD, 0xB5C0FBCFEC4D3B2F, 0xE9B5DBA58189DBBC,
     0x3956C25BF348B538, 0x59F111F1B605D019, 0x923F82A4AF194F9B, 0xAB1C5ED5DA6D8118,
     0xD807AA98A3030242, 0x12835B0145706FBE, 0x243185BE4EE4B28C, 0x550C7DC3D5FFB4E2,
     0x72BE5D74F27B896F, 0x80DEB1FE3B1696B1, 0x9BDC06A725C71235, 0xC19BF174CF692694,
     0xE49B69C19EF14AD2, 0xEFBE4786384F25E3, 0x0FC19DC68B8CD5B5, 0x240CA1CC77AC9C65,
     0x2DE92C6F592B0275, 0x4A7484AA6EA6E483, 0x5CB0A9DCBD41FBD4, 0x76F988DA831153B5,
     0x983E5152EE66DFAB, 0xA831C66D2DB43210, 0xB00327C898FB213F, 0xBF597FC7BEEF0EE4,
     0xC6E00BF33DA88FC2, 0xD5A79147930AA725, 0x06CA6351E003826F, 0x142929670A0E6E70,
     0x27B70A8546D22FFC, 0x2E1B21385C26C926, 0x4D2C6DFC5AC42AED, 0x53380D139D95B3DF,
     0x650A73548BAF63DE, 0x766A0ABB3C77B2A8, 0x81C2C92E47EDAEE6, 0x92722C851482353B,
     0xA2BFE8A14CF10364, 0xA81A664BBC423001, 0xC24B8B70D0F89791, 0xC76C51A30654BE30,
     0xD192E819D6EF5218, 0xD69906245565A910, 0xF40E35855771202A, 0x106AA07032BBD1B8,
     0x19A4C116B8D2D0C8, 0x1E376C085141AB53, 0x2748774CDF8EEB99, 0x34B0BCB5E19B48A8,
     0x391C0CB3C5C95A63, 0x4ED8AA4AE3418ACB, 0x5B9CCA4F7763E373, 0x682E6FF3D6B2B8A3,
     0x748F82EE5DEFB2FC, 0x78A5636F43172F60, 0x84C87814A1F0AB72, 0x8CC702081A6439EC,
     0x90BEFFFA23631E28, 0xA4506CEBDE82BDE9, 0xBEF9A3F7B2C67915, 0xC67178F2E372532B,
     0xCA273ECEEA26619C, 0xD186B8C721C0C207, 0xEADA7DD6CDE0EB1E, 0xF57D4F7FEE6ED178,
     0x06F067AA72176FBA, 0x0A637DC5A2C898A6, 0x113F9804BEF90DAE, 0x1B710B35131C471B,
     0x28DB77F523047D84, 0x32CAAB7B40C72493, 0x3C9EBE0A15C9BEBC, 0x431D67C49C100D4C,
     0x4CC5D4BECB3E42B6, 0x597F299CFC657E2A, 0x5FCB6FAB3AD6FAEC, 0x6C44198C4A475817]"

definition init512 :: "uint64 list" where
  "init512 =
    [0x6A09E667F3BCC908, 0xBB67AE8584CAA73B, 0x3C6EF372FE94F82B, 0xA54FF53A5F1D36F1,
     0x510E527FADE682D1, 0x9B05688C2B3E6C1F, 0x1F83D9ABFB41BD6B, 0x5BE0CD19137E2179]"

text \<open>Big-endian conversions between bytes and numbers.\<close>

definition be_word :: "byte list \<Rightarrow> uint64" where
  "be_word bs = foldl (\<lambda>a b. push_bit 8 a OR ucast b) 0 bs"

fun be_bytes :: "nat \<Rightarrow> nat \<Rightarrow> byte list" where
  "be_bytes 0 v = []"
| "be_bytes (Suc n) v = be_bytes n (v div 256) @ [of_nat (v mod 256)]"

text \<open>
  The padding: a byte \<open>0x80\<close>, zero bytes up to 112 modulo 128, and the length of
  the message in bits on 16 bytes.
\<close>

definition pad512 :: "byte list \<Rightarrow> byte list" where
  "pad512 m =
     m @ [0x80] @ replicate ((239 - length m mod 128) mod 128) 0 @ be_bytes 16 (8 * length m)"

text \<open>\<open>chunks n k xs\<close>: the first \<open>n\<close> consecutive pieces of \<open>xs\<close>, \<open>k\<close> elements each.\<close>

fun chunks :: "nat \<Rightarrow> nat \<Rightarrow> 'a list \<Rightarrow> 'a list list" where
  "chunks 0 k xs = []"
| "chunks (Suc n) k xs = take k xs # chunks n k (drop k xs)"

text \<open>
  The message schedule, from a window of the last sixteen words:
  \<open>W\<^sub>t = \<sigma>\<^sub>1(W\<^sub>t\<^sub>-\<^sub>2) + W\<^sub>t\<^sub>-\<^sub>7 + \<sigma>\<^sub>0(W\<^sub>t\<^sub>-\<^sub>1\<^sub>5) + W\<^sub>t\<^sub>-\<^sub>1\<^sub>6\<close>.
\<close>

fun schedule :: "nat \<Rightarrow> uint64 list \<Rightarrow> uint64 list" where
  "schedule 0 w = []"
| "schedule (Suc n) w =
     hd w # schedule n (tl w @ [ssig1 (w ! 14) + w ! 9 + ssig0 (w ! 1) + w ! 0])"

fun round512 :: "uint64 \<times> uint64 \<Rightarrow> uint64 list \<Rightarrow> uint64 list" where
  "round512 (k, w) [a, b, c, d, e, f, g, h] =
     (let t1 = h + bsig1 e + Ch e f g + k + w;
          t2 = bsig0 a + Maj a b c
      in [t1 + t2, a, b, c, d + t1, e, f, g])"
| "round512 _ s = s"

definition block512 :: "byte list \<Rightarrow> uint64 list \<Rightarrow> uint64 list" where
  "block512 blk hs =
     map2 (+) hs (fold round512 (zip K512 (schedule 80 (map be_word (chunks 16 8 blk)))) hs)"

definition sha512 :: "byte list \<Rightarrow> byte list" where
  "sha512 m =
     (let p = pad512 m
      in concat (map (\<lambda>h. be_bytes 8 (unat h))
                 (fold block512 (chunks (length p div 128) 128 p) init512)))"

text \<open>\<^verbatim>\<open>[]byte(pwd)\<close>: a Go string is its bytes.\<close>

definition bytes_of :: "string \<Rightarrow> byte list" where
  "bytes_of s = map (\<lambda>c. of_nat (of_char c)) s"

section \<open>The operations of the engine\<close>

text \<open>
  Every method of \<^verbatim>\<open>PasswordManager\<close> touches the struct only between \<^verbatim>\<open>Lock\<close> and
  \<^verbatim>\<open>Unlock\<close> of the one mutex, so each is one atomic transition of the state. What the
  method reads from its environment is an argument: \<^verbatim>\<open>Hash\<close> takes the reading \<open>ts\<close> of
  \<^verbatim>\<open>time.Now()\<close>, \<^verbatim>\<open>calculateHash\<close> the reading \<open>now\<close> it takes under the lock.

  A call \<^verbatim>\<open>go pm.calculateHash(id, pwd, ts)\<close> that has been started and has not yet
  entered its critical section is the triple of its arguments.
\<close>

type_synonym goroutine = "int64 \<times> string \<times> time"

definition Hash :: "PasswordManager \<Rightarrow> string \<Rightarrow> time \<Rightarrow> int64 \<times> goroutine \<times> PasswordManager" where
  "Hash pm pwd ts =
     (let pm1 = pm\<lparr>pendingHashes := pendingHashes pm + 1\<rparr>;
          i = id' pm1;
          pm2 = pm1\<lparr>id' := id' pm1 + 1\<rparr>
      in (i, (i, pwd, ts), pm2))"

definition calculateHash :: "PasswordManager \<Rightarrow> int64 \<Rightarrow> string \<Rightarrow> time \<Rightarrow> time \<Rightarrow> PasswordManager" where
  "calculateHash pm i pwd ts now =
     (let hashedPwd = Some (sha512 (bytes_of pwd));
          pm1 = pm\<lparr>tasks := (tasks pm)(i \<mapsto> hashedPwd)\<rparr>;
          elapsed = Sub now ts;
          pm2 = pm1\<lparr>totalTime := totalTime pm1 + elapsed\<rparr>;
          pm3 = pm2\<lparr>pendingHashes := pendingHashes pm2 - 1\<rparr>
      in pm3\<lparr>requests := requests pm3 + 1\<rparr>)"

text \<open>
  \<^verbatim>\<open>pm.tasks[id]\<close> of an absent key is the zero value \<^verbatim>\<open>nil\<close>, and \<^verbatim>\<open>delete\<close> of an
  absent key does nothing.
\<close>

definition Get :: "PasswordManager \<Rightarrow> int64 \<Rightarrow> bytes \<times> PasswordManager" where
  "Get pm i =
     (let pwdHash = (case tasks pm i of None \<Rightarrow> None | Some v \<Rightarrow> v)
      in (pwdHash, pm\<lparr>tasks := (tasks pm)(i := None)\<rparr>))"

definition Nanoseconds :: "int64 \<Rightarrow> int64" where
  "Nanoseconds d = d"

definition Stats :: "PasswordManager \<Rightarrow> int64 \<times> int64" where
  "Stats pm =
     (let r = requests pm
      in (r, if 0 <s r then quo (quo (Nanoseconds (totalTime pm)) 1000000) r else 0))"

definition HasPendingHashes :: "PasswordManager \<Rightarrow> bool" where
  "HasPendingHashes pm = (0 <s pendingHashes pm)"

definition Shutdown :: "PasswordManager \<Rightarrow> PasswordManager" where
  "Shutdown pm = pm\<lparr>shuttingDown := True\<rparr>"

definition IsShuttingDown :: "PasswordManager \<Rightarrow> bool" where
  "IsShuttingDown pm = shuttingDown pm"

section \<open>Runs of the engine\<close>

text \<open>
  The state of the running service is the struct together with the goroutines in
  flight. An event is one call of a method by some client, or the critical section of
  one goroutine in flight (\<open>Finish k now\<close>: the \<open>k\<close>-th of them, reading the clock as
  \<open>now\<close>); the goroutines may finish in any order. \<open>Finish\<close> of a goroutine that does not
  exist is no step at all.
\<close>

type_synonym system = "PasswordManager \<times> goroutine list"

datatype event =
    CallHash string time
  | Finish nat time
  | CallGet int64
  | CallStats
  | CallHasPendingHashes
  | CallShutdown
  | CallIsShuttingDown

datatype result =
    RId int64
  | RBytes bytes
  | RStats int64 int64
  | RBool bool
  | RNone

fun step :: "event \<Rightarrow> system \<Rightarrow> result \<times> system" where
  "step (CallHash pwd ts) (pm, gs) =
     (case Hash pm pwd ts of (i, g, pm') \<Rightarrow> (RId i, (pm', gs @ [g])))"
| "step (Finish k now) (pm, gs) =
     (if k < length gs
      then (case gs ! k of (i, pwd, ts) \<Rightarrow>
              (RNone, (calculateHash pm i pwd ts now, take k gs @ drop (Suc k) gs)))
      else (RNone, (pm, gs)))"
| "step (CallGet i) (pm, gs) = (case Get pm i of (r, pm') \<Rightarrow> (RBytes r, (pm', gs)))"
| "step CallStats (pm, gs) = (case Stats pm of (r, a) \<Rightarrow> (RStats r a, (pm, gs)))"
| "step CallHasPendingHashes (pm, gs) = (RBool (HasPendingHashes pm), (pm, gs))"
| "step CallShutdown (pm, gs) = (RNone, (Shutdown pm, gs))"
| "step CallIsShuttingDown (pm, gs) = (RBool (IsShuttingDown pm), (pm, gs))"

fun run :: "event list \<Rightarrow> system \<Rightarrow> result list \<times> system" where
  "run [] s = ([], s)"
| "run (e # es) s =
     (case step e s of (r, s') \<Rightarrow> (case run es s' of (rs, s'') \<Rightarrow> (r # rs, s'')))"

definition start :: system where
  "start = (NewPasswordManager, [])"

text \<open>
  What a run shows to its clients: \<open>handles\<close> are the ids that the calls of \<^verbatim>\<open>Hash\<close>
  returned, in the order of the calls, and \<open>submissions\<close> counts the calls of
  \<^verbatim>\<open>Hash\<close> among the events.
\<close>

fun handles :: "result list \<Rightarrow> int64 list" where
  "handles [] = []"
| "handles (RId i # rs) = i # handles rs"
| "handles (_ # rs) = handles rs"

fun submissions :: "event list \<Rightarrow> nat" where
  "submissions [] = 0"
| "submissions (CallHash pwd ts # es) = Suc (submissions es)"
| "submissions (_ # es) = submissions es"

section \<open>Properties\<close>

subsection \<open>Signed arithmetic on 64-bit words\<close>

lemma sint_word_of_int_64:
  assumes "- (2 ^ 63) \<le> x" "x < 2 ^ 63"
  shows "sint (word_of_int x :: int64) = x"
proof -
  have "sint (word_of_int x :: int64) = (x + 2 ^ 63) mod 2 ^ 64 - 2 ^ 63"
    by (simp add: int_word_sint)
  also have "(x + 2 ^ 63) mod 2 ^ 64 = x + 2 ^ 63"
    using assms by (intro mod_pos_pos_trivial) auto
  finally show ?thesis by simp
qed

lemma sint_bounds_64: "- (2 ^ 63) \<le> sint (w :: int64)" "sint (w :: int64) < 2 ^ 63"
  using sint_ge [of w] sint_lt [of w] by simp_all

lemma trunc_quot_range:
  fixes a b :: int
  assumes "- (2 ^ 63) \<le> a" "a < 2 ^ 63" "0 < b"
  shows "- (2 ^ 63) \<le> sgn a * (\<bar>a\<bar> div b)" "sgn a * (\<bar>a\<bar> div b) < 2 ^ 63"
proof -
  have q: "0 \<le> \<bar>a\<bar> div b" "\<bar>a\<bar> div b \<le> \<bar>a\<bar>"
    using assms(3) zdiv_mono2 [of "\<bar>a\<bar>" 1 b] by (simp_all add: pos_imp_zdiv_nonneg_iff)
  show "- (2 ^ 63) \<le> sgn a * (\<bar>a\<bar> div b)"
  proof (cases "a < 0")
    case True
    then have "sgn a * (\<bar>a\<bar> div b) = - (\<bar>a\<bar> div b)" by simp
    with q True assms(1) show ?thesis by simp
  next
    case False
    then have "0 \<le> sgn a * (\<bar>a\<bar> div b)" using q by (simp add: sgn_if)
    then show ?thesis by (rule order_trans [rotated]) simp
  qed
  show "sgn a * (\<bar>a\<bar> div b) < 2 ^ 63"
  proof (cases "a < 0")
    case True
    then have "sgn a * (\<bar>a\<bar> div b) \<le> 0" using q by simp
    then show ?thesis by (rule le_less_trans) simp
  next
    case False
    then have "sgn a * (\<bar>a\<bar> div b) \<le> \<bar>a\<bar>" using q by (simp add: sgn_if)
    with False assms(2) show ?thesis by simp
  qed
qed

lemma sint_quo:
  assumes "0 < sint b"
  shows "sint (quo a b) = sgn (sint a) * (\<bar>sint a\<bar> div sint b)"
proof -
  have "quo a b = word_of_int (sgn (sint a) * (\<bar>sint a\<bar> div sint b))"
    using assms by (simp add: quo_def)
  then have "sint (quo a b) = sint (word_of_int (sgn (sint a) * (\<bar>sint a\<bar> div sint b)) :: int64)"
    by (simp only:)
  also have "\<dots> = sgn (sint a) * (\<bar>sint a\<bar> div sint b)"
    by (rule sint_word_of_int_64) (rule trunc_quot_range [OF sint_bounds_64 [of a] assms])+
  finally show ?thesis .
qed

lemma sint_million: "sint (1000000 :: int64) = 1000000"
  by simp

lemma trunc_quot_twice:
  fixes a b c :: int
  assumes "0 < b" "0 < c"
  shows "sgn (sgn a * (\<bar>a\<bar> div b)) * (\<bar>sgn a * (\<bar>a\<bar> div b)\<bar> div c) = sgn a * (\<bar>a\<bar> div (b * c))"
proof (cases "\<bar>a\<bar> div b = 0")
  case True
  then have "\<bar>a\<bar> div (b * c) = 0"
    using assms by (simp add: zdiv_zmult2_eq)
  with True show ?thesis by simp
next
  case False
  then have "0 < \<bar>a\<bar> div b"
    using assms(1) by (metis abs_ge_zero less_le pos_imp_zdiv_nonneg_iff)
  moreover from False have "a \<noteq> 0" by auto
  ultimately show ?thesis
    using assms by (simp add: sgn_mult abs_mult zdiv_zmult2_eq sgn_if)
qed

lemma Stats_avg_sint:
  assumes "0 <s requests pm"
  shows "sint (snd (Stats pm)) =
           sgn (sint (totalTime pm)) * (\<bar>sint (totalTime pm)\<bar> div (1000000 * sint (requests pm)))"
proof -
  have r: "0 < sint (requests pm)" using assms by (simp add: word_sless_alt)
  have m: "0 < sint (1000000 :: int64)" by simp
  have "snd (Stats pm) = quo (quo (totalTime pm) 1000000) (requests pm)"
    using assms by (simp add: Stats_def Nanoseconds_def Let_def)
  then show ?thesis
    using trunc_quot_twice [of 1000000 "sint (requests pm)" "sint (totalTime pm)"] r
    by (simp add: sint_quo [OF r] sint_quo [OF m])
qed

subsection \<open>The lifecycle flag\<close>

lemma Shutdown_twice: "Shutdown (Shutdown pm) = Shutdown pm"
  by (simp add: Shutdown_def)

lemma Shutdown_funpow: "(Shutdown ^^ Suc n) pm = Shutdown pm"
  by (induction n) (simp_all add: Shutdown_twice)

lemma shuttingDown_Hash: "shuttingDown (snd (snd (Hash pm pwd ts))) = shuttingDown pm"
  by (simp add: Hash_def Let_def)

lemma shuttingDown_calculateHash: "shuttingDown (calculateHash pm i pwd ts now) = shuttingDown pm"
  by (simp add: calculateHash_def Let_def)

lemma shuttingDown_Get: "shuttingDown (snd (Get pm i)) = shuttingDown pm"
  by (simp add: Get_def Let_def)

lemma shuttingDown_step:
  "shuttingDown (fst (snd (step e (pm, gs)))) = (shuttingDown pm \<or> e = CallShutdown)"
proof (cases e)
  case (CallHash pwd ts)
  then show ?thesis using shuttingDown_Hash [of pm pwd ts] by (auto split: prod.splits)
next
  case (Finish k now)
  then show ?thesis by (simp add: shuttingDown_calculateHash split: prod.splits)
next
  case (CallGet i)
  then show ?thesis using shuttingDown_Get [of pm i] by (auto split: prod.splits)
qed (simp_all add: Shutdown_def split: prod.splits)

lemma shuttingDown_run:
  "shuttingDown (fst (snd (run es (pm, gs)))) = (shuttingDown pm \<or> CallShutdown \<in> set es)"
proof (induction es arbitrary: pm gs)
  case Nil
  then show ?case by simp
next
  case (Cons e es)
  obtain r pm' gs' where st: "step e (pm, gs) = (r, (pm', gs'))"
    by (metis prod.exhaust)
  have "shuttingDown pm' = (shuttingDown pm \<or> e = CallShutdown)"
    using shuttingDown_step [of e pm gs] st by simp
  then show ?case
    using Cons.IH [of pm' gs'] st by (auto split: prod.splits)
qed

subsection \<open>Handles and counters along a run\<close>

lemma sint_of_nat_64:
  assumes "n < 2 ^ 63"
  shows "sint (of_nat n :: int64) = int n"
proof -
  have "int n < 2 ^ 63" using assms by (simp add: of_nat_less_iff [of n "2 ^ 63", where ?'a = int, simplified])
  then have "sint (word_of_int (int n) :: int64) = int n"
    by (intro sint_word_of_int_64) simp_all
  then show ?thesis by simp
qed

lemma run_Cons_eq:
  "run (e # es) s = (fst (step e s) # fst (run es (snd (step e s))), snd (run es (snd (step e s))))"
  by (simp split: prod.splits)

lemma handles_Cons: "handles (r # rs) = handles [r] @ handles rs"
  by (cases r) simp_all

lemma submissions_Cons: "submissions (e # es) = submissions [e] + submissions es"
  by (cases e) simp_all

lemma id_step: "id' (fst (snd (step e (pm, gs)))) = id' pm + of_nat (submissions [e])"
  by (cases e) (simp_all add: Hash_def calculateHash_def Get_def Shutdown_def Let_def split: prod.splits)

lemma handles_step: "handles [fst (step e (pm, gs))] = map (\<lambda>k. id' pm + of_nat k) [0 ..< submissions [e]]"
  by (cases e) (simp_all add: Hash_def Let_def split: prod.splits)

lemma upt_split: "[0 ..< a + b] = [0 ..< a] @ map (\<lambda>k. a + k) [0 ..< b]"
  by (induction b) simp_all

lemma handles_run:
  "handles (fst (run es (pm, gs))) = map (\<lambda>k. id' pm + of_nat k) [0 ..< submissions es]"
proof (induction es arbitrary: pm gs)
  case Nil
  then show ?case by simp
next
  case (Cons e es)
  obtain pm1 gs1 where s1: "snd (step e (pm, gs)) = (pm1, gs1)"
    by (cases "snd (step e (pm, gs))")
  have i1: "id' pm1 = id' pm + of_nat (submissions [e])"
    using id_step [of e pm gs] s1 by simp
  have "handles (fst (run (e # es) (pm, gs)))
          = handles [fst (step e (pm, gs))] @ handles (fst (run es (pm1, gs1)))"
    by (simp only: run_Cons_eq s1 fst_conv) (rule handles_Cons)
  also have "\<dots> = map (\<lambda>k. id' pm + of_nat k) [0 ..< submissions [e]]
                 @ map (\<lambda>k. id' pm + of_nat (submissions [e]) + of_nat k) [0 ..< submissions es]"
    by (simp only: handles_step Cons.IH i1)
  also have "\<dots> = map (\<lambda>k. id' pm + of_nat k) [0 ..< submissions [e] + submissions es]"
    by (simp only: upt_split [of "submissions [e]"] map_append map_map o_def of_nat_add add.assoc)
  finally show ?case by (simp only: submissions_Cons [of e es])
qed


lemma of_nat_inj_64:
  assumes "a < 2 ^ 64" "b < 2 ^ 64" "(of_nat a :: int64) = of_nat b"
  shows "a = b"
proof -
  have "unat (of_nat a :: int64) = unat (of_nat b :: int64)" using assms(3) by simp
  then show ?thesis using assms(1,2) by (simp add: unat_of_nat)
qed

















lemma handles_start: "handles (fst (run es start)) = map of_nat [0 ..< submissions es]"
  using handles_run [of es NewPasswordManager "[]"] by (simp add: start_def NewPasswordManager_def)

lemma sint_handles:
  assumes "n \<le> 2 ^ 63"
  shows "map sint (map of_nat [0 ..< n] :: int64 list) = map int [0 ..< n]"
  using assms by (simp add: sint_of_nat_64)

lemma distinct_handles:
  assumes "n \<le> 2 ^ 64"
  shows "distinct (map of_nat [0 ..< n] :: int64 list)"
proof -
  have "inj_on (of_nat :: nat \<Rightarrow> int64) (set [0 ..< n])"
  proof (rule inj_onI)
    fix a b assume "a \<in> set [0 ..< n]" "b \<in> set [0 ..< n]" "(of_nat a :: int64) = of_nat b"
    then show "a = b" using assms by (intro of_nat_inj_64) simp_all
  qed
  then show ?thesis by (simp add: distinct_map)
qed

lemma submissions_replicate: "submissions (replicate n (CallHash pwd ts)) = n"
  by (induction n) simp_all


lemma last_map_upt: "last (map f [0 ..< n + 1]) = f n"
  by simp

lemma sint_2_63: "sint (of_nat (2 ^ 63) :: int64) = - (2 ^ 63)"
  by simp

subsection \<open>The task store\<close>

lemma Get_absent: "tasks pm i = None \<Longrightarrow> Get pm i = (None, pm)"
  by (simp add: Get_def Let_def fun_upd_idem)

lemma Get_present:
  "tasks pm i = Some v \<Longrightarrow> Get pm i = (v, pm\<lparr>tasks := (tasks pm)(i := None)\<rparr>)"
  by (simp add: Get_def Let_def)


lemma tasks_calculateHash:
  "tasks (calculateHash pm i pwd ts now) = (tasks pm)(i \<mapsto> Some (sha512 (bytes_of pwd)))"
  by (simp add: calculateHash_def Let_def)






subsection \<open>The claims\<close>

text \<open>
  Claim C7. On a freshly constructed engine, with no submission yet, \<^verbatim>\<open>Stats\<close> returns
  the pair (0, 0): no request has completed, and the average is 0 when the count is 0.
\<close>

theorem Stats_fresh: "Stats NewPasswordManager = (0, 0)"
  by (simp add: Stats_def NewPasswordManager_def)

text \<open>
  Claim C6. \<^verbatim>\<open>Shutdown\<close> is idempotent and the draining state is terminal: calling
  \<^verbatim>\<open>Shutdown\<close> once or more leaves the engine in the state one call leaves it in,
  \<^verbatim>\<open>IsShuttingDown\<close> is true right after it, and after any sequence of events (calls of
  the methods and completions of goroutines, in any order) \<^verbatim>\<open>IsShuttingDown\<close> is true
  exactly if it was true before or the sequence contains a \<^verbatim>\<open>Shutdown\<close>: no event
  sets the flag back.
\<close>

theorem Shutdown_idempotent_terminal:
  "(Shutdown ^^ Suc n) pm = Shutdown pm
   \<and> IsShuttingDown (Shutdown pm)
   \<and> IsShuttingDown (fst (snd (run es (pm, gs)))) = (IsShuttingDown pm \<or> CallShutdown \<in> set es)"
  using Shutdown_funpow [of n pm] shuttingDown_run [of es pm gs]
  by (simp add: IsShuttingDown_def Shutdown_def)

text \<open>
  Claim C5, amended. In every state whose count of completed requests is positive,
  \<^verbatim>\<open>Stats\<close> returns that count and the average latency in whole milliseconds,
  truncated towards zero and not rounded: its sign is the sign of the cumulative duration
  \<^verbatim>\<open>totalTime\<close>, and its magnitude is the magnitude of the cumulative duration in
  nanoseconds divided by 1000000 times the count, rounded down. While the cumulative
  duration is not negative this is the floor of duration / (1000000 * count). It is not
  the floor in every state with a positive count: the 64-bit counter \<^verbatim>\<open>totalTime\<close> is
  negative once the sum of the elapsed times has passed \<open>2\<^sup>6\<^sup>3 - 1\<close> nanoseconds, and
  Go's division of a negative duration rounds up, towards zero.
\<close>

theorem Stats_average_truncates:
  assumes "0 <s requests pm"
  shows "fst (Stats pm) = requests pm
    \<and> sint (snd (Stats pm)) =
        sgn (sint (totalTime pm)) * (\<bar>sint (totalTime pm)\<bar> div (1000000 * sint (requests pm)))
    \<and> (0 \<le> sint (totalTime pm) \<longrightarrow>
        sint (snd (Stats pm)) = sint (totalTime pm) div (1000000 * sint (requests pm)))"
  using Stats_avg_sint [OF assms] by (simp add: Stats_def Let_def sgn_if)

theorem Stats_average_truncates_witness:
  "0 <s requests (NewPasswordManager\<lparr>requests := 3, totalTime := 15000000001\<rparr>)
   \<and> 0 \<le> sint (totalTime (NewPasswordManager\<lparr>requests := 3, totalTime := 15000000001\<rparr>))
   \<and> fst (Stats (NewPasswordManager\<lparr>requests := 3, totalTime := 15000000001\<rparr>)) = 3
   \<and> sint (snd (Stats (NewPasswordManager\<lparr>requests := 3, totalTime := 15000000001\<rparr>))) = 5000"
  using Stats_average_truncates [of "NewPasswordManager\<lparr>requests := 3, totalTime := 15000000001\<rparr>"]
  by (simp add: NewPasswordManager_def word_sless_alt)

text \<open>
  The floor fails at a negative counter. Two requests are submitted when the clock reads
  0 and each completes when it reads \<open>2\<^sup>6\<^sup>2\<close> nanoseconds. The two elapsed times add up
  to \<open>2\<^sup>6\<^sup>3\<close>, which \<^verbatim>\<open>totalTime\<close> holds as \<open>- 2\<^sup>6\<^sup>3\<close>. With a count of 2, \<^verbatim>\<open>Stats\<close>
  returns the average -4611686018427, and the floor of the quotient is -4611686018428.
\<close>

theorem Stats_average_floor_counterexample:
  "0 <s requests (fst (snd (run [CallHash ''x'' 0, CallHash ''y'' 0, Finish 0 (2 ^ 62), Finish 0 (2 ^ 62)] start)))
   \<and> sint (requests (fst (snd (run [CallHash ''x'' 0, CallHash ''y'' 0, Finish 0 (2 ^ 62), Finish 0 (2 ^ 62)] start)))) = 2
   \<and> sint (totalTime (fst (snd (run [CallHash ''x'' 0, CallHash ''y'' 0, Finish 0 (2 ^ 62), Finish 0 (2 ^ 62)] start)))) = - (2 ^ 63)
   \<and> sint (snd (Stats (fst (snd (run [CallHash ''x'' 0, CallHash ''y'' 0, Finish 0 (2 ^ 62), Finish 0 (2 ^ 62)] start))))) = - 4611686018427
   \<and> (- (2 ^ 63)) div (1000000 * 2) = (- 4611686018428 :: int)"
  by (simp add: start_def NewPasswordManager_def Hash_def calculateHash_def Sub_def Stats_def
      Nanoseconds_def quo_def Let_def word_sless_alt)

text \<open>
  Claim C9. \<^verbatim>\<open>Get\<close> of a handle that has no entry in the task store, because it was
  never submitted or because its goroutine is still in flight, returns \<^verbatim>\<open>nil\<close>, the
  not-found signal, and changes nothing: the struct is the same afterwards and the
  goroutines in flight are the same. The task is not cancelled: when the goroutine that
  carries the handle completes after such a \<^verbatim>\<open>Get\<close>, the next \<^verbatim>\<open>Get\<close> of the handle
  returns the digest of its password.
\<close>

theorem Get_absent_no_effect:
  assumes "tasks pm i = None"
  shows "Get pm i = (None, pm)
     \<and> step (CallGet i) (pm, gs) = (RBytes None, (pm, gs))
     \<and> (k < length gs \<and> gs ! k = (i, v, ts) \<longrightarrow>
          fst (run [CallGet i, Finish k now, CallGet i] (pm, gs))
            = [RBytes None, RNone, RBytes (Some (sha512 (bytes_of v)))])"
  using Get_absent [OF assms]
  by (simp add: Get_present [of "calculateHash pm i v ts now" i "Some (sha512 (bytes_of v))"]
      tasks_calculateHash)

theorem Get_absent_no_effect_witness:
  "tasks (fst (snd (run [CallHash ''x'' 0] start))) 0 = None
   \<and> snd (snd (run [CallHash ''x'' 0] start)) = [(0, ''x'', 0)]
   \<and> step (CallGet 0) (snd (run [CallHash ''x'' 0] start)) = (RBytes None, snd (run [CallHash ''x'' 0] start))
   \<and> fst (run [CallGet 0, Finish 0 5000000000, CallGet 0] (snd (run [CallHash ''x'' 0] start)))
        = [RBytes None, RNone, RBytes (Some (sha512 (bytes_of ''x'')))]"
  using Get_absent_no_effect [where pm = "fst (snd (run [CallHash ''x'' 0] start))" and i = 0
      and gs = "snd (snd (run [CallHash ''x'' 0] start))" and k = 0 and v = "''x''" and ts = 0
      and now = 5000000000]
  by (simp add: start_def NewPasswordManager_def Hash_def Get_def calculateHash_def Let_def)



text \<open>
  Claim C2, amended. In every run from the freshly constructed engine, whatever other
  events lie between the submissions, the \<open>k\<close>-th call of \<^verbatim>\<open>Hash\<close> (counting from 0)
  returns the 64-bit value of \<open>k\<close>. For up to \<open>2\<^sup>6\<^sup>3\<close> submissions these are the integers
  \<open>0, 1, \<dots>, N - 1\<close> in the order of submission, so they increase strictly and leave no
  gap; for up to \<open>2\<^sup>6\<^sup>4\<close> submissions no handle is returned twice. It does not hold for
  every number of submissions: the counter \<^verbatim>\<open>id\<close> is an \<^verbatim>\<open>int64\<close> and wraps.
\<close>

theorem handles_consecutive:
  "handles (fst (run es start)) = map of_nat [0 ..< submissions es]
   \<and> (submissions es \<le> 2 ^ 63 \<longrightarrow>
        map sint (handles (fst (run es start))) = map int [0 ..< submissions es])
   \<and> (submissions es \<le> 2 ^ 64 \<longrightarrow> distinct (handles (fst (run es start))))"
  using sint_handles [of "submissions es"] distinct_handles [of "submissions es"]
  by (simp only: handles_start) simp

theorem handles_consecutive_witness:
  "submissions [CallHash ''a'' 0, CallHash ''b'' 1, Finish 1 7, CallGet 1, CallHash ''c'' 9] = 3
   \<and> handles (fst (run [CallHash ''a'' 0, CallHash ''b'' 1, Finish 1 7, CallGet 1, CallHash ''c'' 9] start)) = [0, 1, 2]
   \<and> map sint (handles (fst (run [CallHash ''a'' 0, CallHash ''b'' 1, Finish 1 7, CallGet 1, CallHash ''c'' 9] start))) = [0, 1, 2]
   \<and> distinct (handles (fst (run [CallHash ''a'' 0, CallHash ''b'' 1, Finish 1 7, CallGet 1, CallHash ''c'' 9] start)))"
  using handles_consecutive [of "[CallHash ''a'' 0, CallHash ''b'' 1, Finish 1 7, CallGet 1, CallHash ''c'' 9]"]
  by (simp add: upt_conv_Cons)

text \<open>
  The wrap: the submission after \<open>2\<^sup>6\<^sup>3\<close> others returns \<open>- 2\<^sup>6\<^sup>3\<close>, not \<open>2\<^sup>6\<^sup>3\<close>, so the set
  of handles of \<open>2\<^sup>6\<^sup>3 + 1\<close> submissions is not \<open>{0, \<dots>, 2\<^sup>6\<^sup>3}\<close> and the handles do not
  increase.
\<close>

theorem handles_wrap_counterexample:
  "submissions (replicate (2 ^ 63 + 1) (CallHash ''x'' 0)) = 2 ^ 63 + 1
   \<and> sint (last (handles (fst (run (replicate (2 ^ 63 + 1) (CallHash ''x'' 0)) start)))) = - (2 ^ 63)"
  by (simp only: handles_start submissions_replicate last_map_upt sint_2_63)




end
